theory Spec2Isabelle
  imports Main "HOL-Library.Sublist" "HOL-Library.AList"
begin

section \<open>JavaScript values, errors and the host environment\<close>

text \<open>
  Documents are JSON values as \<^verbatim>\<open>JSON.parse\<close> and \<^verbatim>\<open>response.json()\<close> deliver them,
  extended with \<^verbatim>\<open>undefined\<close> (the value of a missing property). Numbers are the
  integers (chapter, verse and hadith numbers, epoch milliseconds). An object keeps its
  properties in order, an array its elements.
\<close>

datatype jsval =
    JUndefined
  | JNull
  | JBool bool
  | JNum int
  | JStr string
  | JArr "jsval list"
  | JObj "(string \<times> jsval) list"

text \<open>
  What the services throw. \<open>InvalidArgument\<close> is the range error of \<^verbatim>\<open>loadChapter\<close>,
  \<open>NotFound\<close> the "not found" exceptions, \<open>FetchFailed\<close> a failed request (with the HTTP
  status, or \<open>None\<close> for a transport error), \<open>SyntaxError\<close> a text that is not JSON,
  \<open>TypeError\<close> a property read on \<^verbatim>\<open>null\<close>/\<^verbatim>\<open>undefined\<close> or a call of a missing method,
  \<open>StorageError\<close> an exception raised by the storage backend.
\<close>

datatype error =
    InvalidArgument
  | NotFound
  | FetchFailed "int option"
  | SyntaxError
  | TypeError
  | StorageError

text \<open>
  A text held by the storage backend or carried by an HTTP body is seen through
  \<^verbatim>\<open>JSON.parse\<close>: it is the empty text (which is falsy, and does not parse), another
  text that does not parse, or the text of a JSON value
  (\<^verbatim>\<open>JSON.parse(JSON.stringify(v))\<close> is \<open>v\<close> for such values).
\<close>

datatype stored = EmptyText | Unparseable | Json jsval

datatype response = NetworkError | Http int stored

datatype event =
    StoreGet string
  | StoreSet string
  | StoreRemove string
  | StoreKeys
  | NetGet string
  | MemRead string
  | MemWrite string
  | MemClear
  | MemEntries
  | Console string

text \<open>
  The service object together with its host: \<open>cache\<close> is \<^verbatim>\<open>this.cache\<close> (a \<^verbatim>\<open>Map\<close>,
  which iterates in insertion order), \<open>index\<close> is \<^verbatim>\<open>this.index\<close>, \<open>items\<close> the content of
  \<^verbatim>\<open>this.storage\<close>; the \<open>*_raises\<close> fields say on which keys the backend throws;
  \<open>clock\<close> is \<^verbatim>\<open>Date.now()\<close>; \<open>net\<close> answers a GET of a URL; \<open>trace\<close> records every
  access to the memory cache, the storage and the network and every \<^verbatim>\<open>console.warn\<close> and
  \<^verbatim>\<open>console.error\<close>, oldest first (the progress messages of \<^verbatim>\<open>console.log\<close> are left
  out).
\<close>

record world =
  cache :: "(string \<times> jsval) list"
  index :: jsval
  offlineFirst :: bool
  baseUrl :: string
  items :: "(string \<times> stored) list"
  get_raises :: "string \<Rightarrow> bool"
  set_raises :: "string \<Rightarrow> bool"
  remove_raises :: "string \<Rightarrow> bool"
  keys_raises :: bool
  clock :: int
  net :: "string \<Rightarrow> response"
  trace :: "event list"

type_synonym 'a result = "(error + 'a) \<times> world"

definition emit :: "event \<Rightarrow> world \<Rightarrow> world" where
  "emit e w = w\<lparr>trace := trace w @ [e]\<rparr>"

subsection \<open>Property access, truthiness, comparison\<close>

fun truthy :: "jsval \<Rightarrow> bool" where
  "truthy JUndefined = False"
| "truthy JNull = False"
| "truthy (JBool b) = b"
| "truthy (JNum n) = (n \<noteq> 0)"
| "truthy (JStr s) = (s \<noteq> [])"
| "truthy (JArr xs) = True"
| "truthy (JObj ps) = True"

text \<open>\<^verbatim>\<open>v.k\<close>: a \<^verbatim>\<open>TypeError\<close> on \<^verbatim>\<open>null\<close> and \<^verbatim>\<open>undefined\<close>, \<^verbatim>\<open>undefined\<close> when the
  property is missing.\<close>

fun get_prop :: "jsval \<Rightarrow> string \<Rightarrow> error + jsval" where
  "get_prop JUndefined k = Inl TypeError"
| "get_prop JNull k = Inl TypeError"
| "get_prop (JObj ps) k = (case map_of ps k of None \<Rightarrow> Inr JUndefined | Some v \<Rightarrow> Inr v)"
| "get_prop v k = Inr JUndefined"

text \<open>\<^verbatim>\<open>v?.[k]\<close>: as \<^verbatim>\<open>v[k]\<close>, but \<^verbatim>\<open>undefined\<close> on \<^verbatim>\<open>null\<close> and \<^verbatim>\<open>undefined\<close>.\<close>

fun opt_prop :: "jsval \<Rightarrow> string \<Rightarrow> jsval" where
  "opt_prop (JObj ps) k = (case map_of ps k of None \<Rightarrow> JUndefined | Some v \<Rightarrow> v)"
| "opt_prop v k = JUndefined"

fun digit_val :: "char \<Rightarrow> nat option" where
  "digit_val c =
     (let n = (of_char c :: nat) in if 48 \<le> n \<and> n \<le> 57 then Some (n - 48) else None)"

fun digits_val :: "nat \<Rightarrow> string \<Rightarrow> nat option" where
  "digits_val acc [] = Some acc"
| "digits_val acc (c # cs) =
     (case digit_val c of None \<Rightarrow> None | Some d \<Rightarrow> digits_val (10 * acc + d) cs)"

text \<open>\<^verbatim>\<open>ToNumber\<close>, with \<open>None\<close> for \<^verbatim>\<open>NaN\<close>. Of the numeric texts, the empty one and
  the optionally signed runs of decimal digits convert (the forms with blanks, a
  fraction, an exponent or a radix prefix are never written by \<^verbatim>\<open>setCachedData\<close> and are
  taken as \<^verbatim>\<open>NaN\<close>). An array converts through its text: the empty array is 0, an
  array of one element converts as that element does (\<^verbatim>\<open>null\<close> and \<^verbatim>\<open>undefined\<close> giving
  the empty text), every other array and every object is \<^verbatim>\<open>NaN\<close>.\<close>

fun to_number :: "jsval \<Rightarrow> int option" where
  "to_number JUndefined = None"
| "to_number JNull = Some 0"
| "to_number (JBool b) = Some (if b then 1 else 0)"
| "to_number (JNum n) = Some n"
| "to_number (JStr []) = Some 0"
| "to_number (JStr (c # cs)) =
     (if c = CHR ''-'' \<and> cs \<noteq> [] then map_option (\<lambda>n. - int n) (digits_val 0 cs)
      else if c = CHR ''+'' \<and> cs \<noteq> [] then map_option int (digits_val 0 cs)
      else map_option int (digits_val 0 (c # cs)))"
| "to_number (JArr []) = Some 0"
| "to_number (JArr [JUndefined]) = Some 0"
| "to_number (JArr [JNull]) = Some 0"
| "to_number (JArr [JBool b]) = None"
| "to_number (JArr [JObj ps]) = None"
| "to_number (JArr [x]) = to_number x"
| "to_number (JArr xs) = None"
| "to_number (JObj ps) = None"

text \<open>\<^verbatim>\<open>n > v\<close> for a number \<open>n\<close>: false when \<open>v\<close> converts to \<^verbatim>\<open>NaN\<close>.\<close>

definition js_gt :: "int \<Rightarrow> jsval \<Rightarrow> bool" where
  "js_gt n v = (case to_number v of None \<Rightarrow> False | Some m \<Rightarrow> n > m)"

fun JSON_parse :: "stored \<Rightarrow> error + jsval" where
  "JSON_parse EmptyText = Inl SyntaxError"
| "JSON_parse Unparseable = Inl SyntaxError"
| "JSON_parse (Json v) = Inr v"

text \<open>\<^verbatim>\<open>JSON.stringify\<close> of an object literal leaves out the properties whose value is
  \<^verbatim>\<open>undefined\<close>.\<close>

fun JSON_stringify :: "jsval \<Rightarrow> stored" where
  "JSON_stringify (JObj ps) = Json (JObj (filter (\<lambda>p. snd p \<noteq> JUndefined) ps))"
| "JSON_stringify v = Json v"

subsection \<open>The storage backend\<close>

definition storage_getItem :: "world \<Rightarrow> string \<Rightarrow> stored option result" where
  "storage_getItem w k =
     (let w' = emit (StoreGet k) w in
      if get_raises w k then (Inl StorageError, w') else (Inr (map_of (items w) k), w'))"

definition storage_setItem :: "world \<Rightarrow> string \<Rightarrow> stored \<Rightarrow> unit result" where
  "storage_setItem w k v =
     (let w' = emit (StoreSet k) w in
      if set_raises w k then (Inl StorageError, w')
      else (Inr (), w'\<lparr>items := AList.update k v (items w)\<rparr>))"

definition storage_removeItem :: "world \<Rightarrow> string \<Rightarrow> unit result" where
  "storage_removeItem w k =
     (let w' = emit (StoreRemove k) w in
      if remove_raises w k then (Inl StorageError, w')
      else (Inr (), w'\<lparr>items := AList.delete k (items w)\<rparr>))"

text \<open>\<^verbatim>\<open>Object.keys(this.storage)\<close>.\<close>

definition storage_keys :: "world \<Rightarrow> string list result" where
  "storage_keys w =
     (let w' = emit StoreKeys w in
      if keys_raises w then (Inl StorageError, w') else (Inr (map fst (items w)), w'))"

section \<open>QuranService: cache management\<close>

text \<open>The body of the \<^verbatim>\<open>try\<close> block of \<^verbatim>\<open>getCachedData\<close>; \<^verbatim>\<open>!item\<close> holds of an absent
  item (\<^verbatim>\<open>null\<close>) and of the empty text.\<close>

definition getCachedData_try :: "world \<Rightarrow> string \<Rightarrow> jsval result" where
  "getCachedData_try w key =
     (case storage_getItem w (''quran-'' @ key) of
        (Inl e, w1) \<Rightarrow> (Inl e, w1)
      | (Inr None, w1) \<Rightarrow> (Inr JNull, w1)
      | (Inr (Some EmptyText), w1) \<Rightarrow> (Inr JNull, w1)
      | (Inr (Some item), w1) \<Rightarrow>
          (case JSON_parse item of
             Inl e \<Rightarrow> (Inl e, w1)
           | Inr parsed \<Rightarrow>
               (case get_prop parsed ''expires'' of
                  Inl e \<Rightarrow> (Inl e, w1)
                | Inr expires \<Rightarrow>
                    if truthy expires \<and> js_gt (clock w1) expires then
                      (case storage_removeItem w1 (''quran-'' @ key) of
                         (Inl e, w2) \<Rightarrow> (Inl e, w2)
                       | (Inr u, w2) \<Rightarrow> (Inr JNull, w2))
                    else (get_prop parsed ''data'', w1))))"

text \<open>\<^verbatim>\<open>getCachedData\<close>: the \<^verbatim>\<open>catch\<close> clause warns and returns \<^verbatim>\<open>null\<close>.\<close>

definition getCachedData :: "world \<Rightarrow> string \<Rightarrow> jsval result" where
  "getCachedData w key =
     (case getCachedData_try w key of
        (Inl e, w1) \<Rightarrow> (Inr JNull, emit (Console ''warn'') w1)
      | (Inr v, w1) \<Rightarrow> (Inr v, w1))"

text \<open>\<^verbatim>\<open>setCachedData\<close>: the envelope holds the data, the expiry instant (\<^verbatim>\<open>null\<close> when
  \<^verbatim>\<open>ttlMs\<close> is not positive) and the instant of the write; a failing write is logged.\<close>

definition setCachedData :: "world \<Rightarrow> string \<Rightarrow> jsval \<Rightarrow> int \<Rightarrow> unit result" where
  "setCachedData w key data ttlMs =
     (let item = JObj [(''data'', data),
                       (''expires'', if ttlMs > 0 then JNum (clock w + ttlMs) else JNull),
                       (''cached'', JNum (clock w))]
      in case storage_setItem w (''quran-'' @ key) (JSON_stringify item) of
           (Inl e, w1) \<Rightarrow> (Inr (), emit (Console ''warn'') w1)
         | (Inr u, w1) \<Rightarrow> (Inr (), w1))"

section \<open>QuranService: loading the index and a chapter\<close>

text \<open>\<^verbatim>\<open>new QuranService(config)\<close> on a host: an empty memory cache, no index yet, the
  default base URL, a storage backend that does not throw.\<close>

definition QuranService :: "bool \<Rightarrow> (string \<times> stored) list \<Rightarrow> int \<Rightarrow> (string \<Rightarrow> response) \<Rightarrow> world" where
  "QuranService off its now nt =
     \<lparr>cache = [], index = JUndefined, offlineFirst = off,
      baseUrl = ''https://cdn.jsdelivr.net/gh/username/islamic-data@main'',
      items = its, get_raises = (\<lambda>k. False), set_raises = (\<lambda>k. False),
      remove_raises = (\<lambda>k. False), keys_raises = False, clock = now, net = nt, trace = []\<rparr>"

subsection \<open>Numbers in keys and paths\<close>

definition digit_char :: "nat \<Rightarrow> char" where
  "digit_char d = ''0123456789'' ! d"

fun show_nat :: "nat \<Rightarrow> string" where
  "show_nat n = (if n < 10 then [digit_char n] else show_nat (n div 10) @ [digit_char (n mod 10)])"

declare show_nat.simps [simp del]

text \<open>\<^verbatim>\<open>n.toString()\<close> and the interpolation \<^verbatim>\<open>${n}\<close> of an integer.\<close>

definition toString :: "int \<Rightarrow> string" where
  "toString i = (if i < 0 then CHR ''-'' # show_nat (nat (- i)) else show_nat (nat i))"

definition padStart :: "string \<Rightarrow> nat \<Rightarrow> char \<Rightarrow> string" where
  "padStart s n c = replicate (n - length s) c @ s"

subsection \<open>The network\<close>

text \<open>\<^verbatim>\<open>fetch(url)\<close>, the test of \<^verbatim>\<open>response.ok\<close> and \<^verbatim>\<open>response.json()\<close>, as both
  loaders write them: a transport error, a status outside 200..299 and a body that is
  not JSON each throw.\<close>

definition fetch_json :: "world \<Rightarrow> string \<Rightarrow> jsval result" where
  "fetch_json w url =
     (let w1 = emit (NetGet url) w in
      case net w url of
        NetworkError \<Rightarrow> (Inl (FetchFailed None), w1)
      | Http status body \<Rightarrow>
          if 200 \<le> status \<and> status \<le> 299 then (JSON_parse body, w1)
          else (Inl (FetchFailed (Some status)), w1))"

text \<open>\<^verbatim>\<open>this.cache.set(key, value)\<close>: a new key goes last, a known key keeps its place.\<close>

definition cache_set :: "world \<Rightarrow> string \<Rightarrow> jsval \<Rightarrow> world" where
  "cache_set w key v = (emit (MemWrite key) w)\<lparr>cache := AList.update key v (cache w)\<rparr>"

subsection \<open>loadQuranIndex\<close>

text \<open>The \<^verbatim>\<open>catch\<close> block: the cached index if the TTL-checking read finds one, the
  caught error otherwise.\<close>

definition loadQuranIndex_catch :: "world \<Rightarrow> error \<Rightarrow> jsval result" where
  "loadQuranIndex_catch w err =
     (case getCachedData (emit (Console ''error'') w) ''quran-index'' of
        (Inl e, w1) \<Rightarrow> (Inl e, w1)
      | (Inr cached, w1) \<Rightarrow> if truthy cached then (Inr cached, w1) else (Inl err, w1))"

text \<open>The \<^verbatim>\<open>try\<close> block: fetch, then cache with a TTL of 24 hours.\<close>

definition loadQuranIndex_try :: "world \<Rightarrow> jsval result" where
  "loadQuranIndex_try w =
     (case fetch_json w (baseUrl w @ ''/data/quran/index.json'') of
        (Inl e, w1) \<Rightarrow> loadQuranIndex_catch w1 e
      | (Inr data, w1) \<Rightarrow>
          (case setCachedData w1 ''quran-index'' data (24 * 60 * 60 * 1000) of
             (Inl e, w2) \<Rightarrow> loadQuranIndex_catch w2 e
           | (Inr u, w2) \<Rightarrow> (Inr data, w2)))"

definition loadQuranIndex :: "world \<Rightarrow> jsval result" where
  "loadQuranIndex w =
     (if offlineFirst w then
        (case getCachedData w ''quran-index'' of
           (Inl e, w1) \<Rightarrow> (Inl e, w1)
         | (Inr cached, w1) \<Rightarrow> if truthy cached then (Inr cached, w1) else loadQuranIndex_try w1)
      else loadQuranIndex_try w)"

subsection \<open>loadChapter\<close>

definition chapter_url :: "world \<Rightarrow> int \<Rightarrow> string" where
  "chapter_url w chapterNumber =
     baseUrl w @ ''/data/quran/chapters/'' @ padStart (toString chapterNumber) 3 (CHR ''0'') @ ''.json''"

text \<open>The \<^verbatim>\<open>catch\<close> block: the cached chapter if the TTL-checking read finds one (it then
  also enters the memory cache), the caught error otherwise.\<close>

definition loadChapter_catch :: "world \<Rightarrow> string \<Rightarrow> error \<Rightarrow> jsval result" where
  "loadChapter_catch w cacheKey err =
     (case getCachedData (emit (Console ''error'') w) cacheKey of
        (Inl e, w1) \<Rightarrow> (Inl e, w1)
      | (Inr cached, w1) \<Rightarrow>
          if truthy cached then (Inr cached, cache_set w1 cacheKey cached) else (Inl err, w1))"

text \<open>The \<^verbatim>\<open>try\<close> block: fetch, then cache in memory and in storage with a TTL of 7 days.\<close>

definition loadChapter_try :: "world \<Rightarrow> int \<Rightarrow> string \<Rightarrow> jsval result" where
  "loadChapter_try w chapterNumber cacheKey =
     (case fetch_json w (chapter_url w chapterNumber) of
        (Inl e, w1) \<Rightarrow> loadChapter_catch w1 cacheKey e
      | (Inr data, w1) \<Rightarrow>
          (case setCachedData (cache_set w1 cacheKey data) cacheKey data (7 * 24 * 60 * 60 * 1000) of
             (Inl e, w2) \<Rightarrow> loadChapter_catch w2 cacheKey e
           | (Inr u, w2) \<Rightarrow> (Inr data, w2)))"

definition loadChapter :: "world \<Rightarrow> int \<Rightarrow> jsval result" where
  "loadChapter w chapterNumber =
     (if chapterNumber < 1 \<or> chapterNumber > 114 then (Inl InvalidArgument, w)
      else
        let cacheKey = ''chapter-'' @ toString chapterNumber;
            w1 = emit (MemRead cacheKey) w
        in case map_of (cache w) cacheKey of
             Some v \<Rightarrow> (Inr v, emit (MemRead cacheKey) w1)
           | None \<Rightarrow>
               if offlineFirst w then
                 (case getCachedData w1 cacheKey of
                    (Inl e, w2) \<Rightarrow> (Inl e, w2)
                  | (Inr cached, w2) \<Rightarrow>
                      if truthy cached then (Inr cached, cache_set w2 cacheKey cached)
                      else loadChapter_try w2 chapterNumber cacheKey)
               else loadChapter_try w1 chapterNumber cacheKey)"

section \<open>QuranService: searching the cached chapters\<close>

record options =
  language :: string
  translation :: string
  limit :: int

text \<open>The defaults of the destructuring
  \<^verbatim>\<open>{ language = 'en', translation = 'sahih', limit = 50 } = options\<close>.\<close>

definition default_options :: options where
  "default_options = \<lparr>language = ''en'', translation = ''sahih'', limit = 50\<rparr>"

text \<open>\<^verbatim>\<open>toLowerCase\<close> on the letters A to Z; other characters are left as they are.\<close>

definition lower_char :: "char \<Rightarrow> char" where
  "lower_char c =
     (case map_of (zip ''ABCDEFGHIJKLMNOPQRSTUVWXYZ'' ''abcdefghijklmnopqrstuvwxyz'') c of
        Some l \<Rightarrow> l
      | None \<Rightarrow> c)"

definition toLowerCase :: "string \<Rightarrow> string" where
  "toLowerCase s = map lower_char s"

text \<open>\<^verbatim>\<open>s.includes(t)\<close>: \<open>t\<close> occurs in \<open>s\<close> as a contiguous run.\<close>

fun str_includes :: "string \<Rightarrow> string \<Rightarrow> bool" where
  "str_includes [] t = (t = [])"
| "str_includes (c # cs) t = (prefix t (c # cs) \<or> str_includes cs t)"

text \<open>What \<^verbatim>\<open>for (const x of v)\<close> runs through: the elements of an array, the characters
  of a text; any other value is not iterable.\<close>

fun iterate :: "jsval \<Rightarrow> error + jsval list" where
  "iterate (JArr xs) = Inr xs"
| "iterate (JStr s) = Inr (map (\<lambda>c. JStr [c]) s)"
| "iterate v = Inl TypeError"

text \<open>The text searched for one verse:
  \<^verbatim>\<open>verse.translations?.[`${language}.${translation}`] || ''\<close>.\<close>

definition translationText :: "options \<Rightarrow> jsval \<Rightarrow> error + jsval" where
  "translationText opts verse =
     (case get_prop verse ''translations'' of
        Inl e \<Rightarrow> Inl e
      | Inr tr \<Rightarrow>
          (let t = opt_prop tr (language opts @ ''.'' @ translation opts)
           in Inr (if truthy t then t else JStr [])))"

text \<open>\<^verbatim>\<open>translationText.toLowerCase().includes(searchTerm)\<close>; only a text has the method.\<close>

fun text_matches :: "jsval \<Rightarrow> string \<Rightarrow> error + bool" where
  "text_matches (JStr s) searchTerm = Inr (str_includes (toLowerCase s) searchTerm)"
| "text_matches v searchTerm = Inl TypeError"

text \<open>The object pushed for a matching verse.\<close>

definition result_entry :: "jsval \<Rightarrow> jsval \<Rightarrow> jsval \<Rightarrow> jsval" where
  "result_entry chapter verse txt =
     JObj [(''chapter'', opt_prop chapter ''chapter''),
           (''verse'', opt_prop verse ''verse''),
           (''arabic'', opt_prop verse ''arabic''),
           (''translation'', txt),
           (''transliteration'', opt_prop verse ''transliteration'')]"

text \<open>One turn of the inner loop: \<open>Inr None\<close> when the verse does not match.\<close>

definition verse_hit :: "options \<Rightarrow> string \<Rightarrow> jsval \<Rightarrow> jsval \<Rightarrow> error + jsval option" where
  "verse_hit opts searchTerm chapter verse =
     (case translationText opts verse of
        Inl e \<Rightarrow> Inl e
      | Inr txt \<Rightarrow>
          (case text_matches txt searchTerm of
             Inl e \<Rightarrow> Inl e
           | Inr False \<Rightarrow> Inr None
           | Inr True \<Rightarrow> Inr (Some (result_entry chapter verse txt))))"

text \<open>The inner loop over \<^verbatim>\<open>chapter.content\<close>, with its \<^verbatim>\<open>break\<close> at the limit.\<close>

fun scan_verses :: "options \<Rightarrow> string \<Rightarrow> jsval \<Rightarrow> jsval list \<Rightarrow> jsval list \<Rightarrow> error + jsval list" where
  "scan_verses opts searchTerm chapter [] results = Inr results"
| "scan_verses opts searchTerm chapter (verse # verses) results =
     (case verse_hit opts searchTerm chapter verse of
        Inl e \<Rightarrow> Inl e
      | Inr None \<Rightarrow> scan_verses opts searchTerm chapter verses results
      | Inr (Some r) \<Rightarrow>
          if int (length (results @ [r])) \<ge> limit opts then Inr (results @ [r])
          else scan_verses opts searchTerm chapter verses (results @ [r]))"

text \<open>The outer loop over \<^verbatim>\<open>this.cache.entries()\<close>: entries whose key does not start
  with \<^verbatim>\<open>chapter-\<close> are skipped; the limit is tested again after each chapter.\<close>

fun scan_cache :: "options \<Rightarrow> string \<Rightarrow> (string \<times> jsval) list \<Rightarrow> jsval list \<Rightarrow> error + jsval list" where
  "scan_cache opts searchTerm [] results = Inr results"
| "scan_cache opts searchTerm ((cacheKey, chapter) # rest) results =
     (if \<not> prefix ''chapter-'' cacheKey then scan_cache opts searchTerm rest results
      else
        case get_prop chapter ''content'' of
          Inl e \<Rightarrow> Inl e
        | Inr content \<Rightarrow>
            (case iterate content of
               Inl e \<Rightarrow> Inl e
             | Inr verses \<Rightarrow>
                 (case scan_verses opts searchTerm chapter verses results of
                    Inl e \<Rightarrow> Inl e
                  | Inr results' \<Rightarrow>
                      if int (length results') \<ge> limit opts then Inr results'
                      else scan_cache opts searchTerm rest results')))"

text \<open>\<^verbatim>\<open>searchVerses(query, options)\<close>: the index is loaded (and not kept) when
  \<^verbatim>\<open>this.index\<close> is not set; then the memory cache is scanned.\<close>

definition searchVerses :: "world \<Rightarrow> string \<Rightarrow> options \<Rightarrow> jsval list result" where
  "searchVerses w query opts =
     (case (if \<not> truthy (index w) then loadQuranIndex w else (Inr JUndefined, w)) of
        (Inl e, w1) \<Rightarrow> (Inl e, w1)
      | (Inr ix, w1) \<Rightarrow>
          (scan_cache opts (toLowerCase query) (cache w1) [], emit MemEntries w1))"

section \<open>QuranService: clearing the caches\<close>

text \<open>The loop of \<^verbatim>\<open>clearCache\<close> over the keys; a throwing \<^verbatim>\<open>removeItem\<close> ends it.\<close>

fun remove_keys :: "world \<Rightarrow> string list \<Rightarrow> unit result" where
  "remove_keys w [] = (Inr (), w)"
| "remove_keys w (key # keys) =
     (if prefix ''quran-'' key then
        (case storage_removeItem w key of
           (Inl e, w1) \<Rightarrow> (Inl e, w1)
         | (Inr u, w1) \<Rightarrow> remove_keys w1 keys)
      else remove_keys w keys)"

definition clearCache_try :: "world \<Rightarrow> unit result" where
  "clearCache_try w =
     (case storage_keys w of
        (Inl e, w1) \<Rightarrow> (Inl e, w1)
      | (Inr keys, w1) \<Rightarrow> remove_keys w1 keys)"

text \<open>\<^verbatim>\<open>clearCache\<close>: the memory cache is emptied first; an exception of the storage
  backend is logged and ends the clearing of the storage.\<close>

definition clearCache :: "world \<Rightarrow> unit result" where
  "clearCache w =
     (case clearCache_try ((emit MemClear w)\<lparr>cache := []\<rparr>) of
        (Inl e, w1) \<Rightarrow> (Inr (), emit (Console ''error'') w1)
      | (Inr u, w1) \<Rightarrow> (Inr (), w1))"

section \<open>The Dart services of the README\<close>

text \<open>
  The Flutter examples keep one map \<^verbatim>\<open>_cache\<close> and go to the network on a miss; the
  same record holds their state (\<open>cache\<close>, \<open>net\<close>, \<open>trace\<close>). Dart has no
  \<^verbatim>\<open>undefined\<close>: a missing key reads as \<^verbatim>\<open>null\<close>.
\<close>

definition dart_baseUrl :: string where
  "dart_baseUrl = ''https://cdn.jsdelivr.net/gh/yourusername/justdeen-data@main/''"

text \<open>\<^verbatim>\<open>m['k']\<close> on a decoded document: only a map can be read with a text key.\<close>

fun dart_index :: "jsval \<Rightarrow> string \<Rightarrow> error + jsval" where
  "dart_index (JObj ps) k = (case map_of ps k of None \<Rightarrow> Inr JNull | Some v \<Rightarrow> Inr v)"
| "dart_index v k = Inl TypeError"

text \<open>Returning a decoded value from a function declared
  \<^verbatim>\<open>Future<Map<String, dynamic>>\<close> casts it to a map.\<close>

fun as_map :: "jsval \<Rightarrow> world \<Rightarrow> jsval result" where
  "as_map (JObj ps) w = (Inr (JObj ps), w)"
| "as_map v w = (Inl TypeError, w)"

text \<open>The body that \<^verbatim>\<open>getChapter\<close>, \<^verbatim>\<open>getCollection\<close> and \<^verbatim>\<open>getBook\<close> share, for their
  cache key and URL: the cached value if the key is present; else a GET, whose body is
  decoded, cached and returned when the status is 200, and an exception otherwise.\<close>

definition cached_get :: "world \<Rightarrow> string \<Rightarrow> string \<Rightarrow> jsval result" where
  "cached_get w cacheKey url =
     (let w1 = emit (MemRead cacheKey) w in
      case map_of (cache w) cacheKey of
        Some v \<Rightarrow> as_map v (emit (MemRead cacheKey) w1)
      | None \<Rightarrow>
          (let w2 = emit (NetGet url) w1 in
           case net w url of
             NetworkError \<Rightarrow> (Inl (FetchFailed None), w2)
           | Http status body \<Rightarrow>
               if status = 200 then
                 (case JSON_parse body of
                    Inl e \<Rightarrow> (Inl e, w2)
                  | Inr data \<Rightarrow> as_map data (cache_set w2 cacheKey data))
               else (Inl (FetchFailed (Some status)), w2)))"

definition getChapter :: "world \<Rightarrow> int \<Rightarrow> jsval result" where
  "getChapter w chapterNumber =
     cached_get w (''chapter_'' @ toString chapterNumber)
       (dart_baseUrl @ ''data/quran/chapters/''
          @ padStart (toString chapterNumber) 3 (CHR ''0'') @ ''.json'')"












text \<open>\<^verbatim>\<open>searchVerses(query, [language])\<close> of the Dart service: chapter 1 is loaded through
  \<^verbatim>\<open>getChapter\<close> and searched; the text of a verse is
  \<^verbatim>\<open>verse['translations']?[language] ?? verse['arabic']\<close>.\<close>

definition dart_text :: "jsval \<Rightarrow> string \<Rightarrow> error + jsval" where
  "dart_text verse lang =
     (case dart_index verse ''translations'' of
        Inl e \<Rightarrow> Inl e
      | Inr tr \<Rightarrow>
          (case (if tr = JNull then Inr JNull else dart_index tr lang) of
             Inl e \<Rightarrow> Inl e
           | Inr t \<Rightarrow> if t = JNull then dart_index verse ''arabic'' else Inr t))"

fun dart_scan :: "jsval list \<Rightarrow> string \<Rightarrow> string \<Rightarrow> jsval list \<Rightarrow> error + jsval list" where
  "dart_scan [] query lang results = Inr results"
| "dart_scan (verse # verses) query lang results =
     (case dart_text verse lang of
        Inl e \<Rightarrow> Inl e
      | Inr (JStr s) \<Rightarrow>
          if str_includes (toLowerCase s) (toLowerCase query) then
            (case dart_index verse ''verse'' of
               Inl e \<Rightarrow> Inl e
             | Inr vn \<Rightarrow>
                 (case dart_index verse ''arabic'' of
                    Inl e \<Rightarrow> Inl e
                  | Inr ar \<Rightarrow>
                      dart_scan verses query lang
                        (results @ [JObj [(''chapter'', JNum 1), (''verse'', vn),
                                          (''text'', JStr s), (''arabic'', ar)]])))
          else dart_scan verses query lang results
      | Inr other \<Rightarrow> Inl TypeError)"

definition dart_searchVerses :: "world \<Rightarrow> string \<Rightarrow> string \<Rightarrow> jsval list result" where
  "dart_searchVerses w query lang =
     (case getChapter w 1 of
        (Inl e, w1) \<Rightarrow> (Inl e, w1)
      | (Inr chapter, w1) \<Rightarrow>
          (case dart_index chapter ''content'' of
             Inr (JArr verses) \<Rightarrow> (dart_scan verses query lang [], w1)
           | other \<Rightarrow> (Inl TypeError, w1)))"

section \<open>What a search and a lookup are to deliver\<close>

text \<open>The verses of a cached chapter, in the order of its \<^verbatim>\<open>content\<close>.\<close>

definition chapter_verses :: "jsval \<Rightarrow> jsval list" where
  "chapter_verses chapter =
     (case get_prop chapter ''content'' of
        Inl e \<Rightarrow> []
      | Inr content \<Rightarrow> (case iterate content of Inl e \<Rightarrow> [] | Inr verses \<Rightarrow> verses))"

text \<open>The result entries of the matching verses of one chapter, in content order.\<close>

definition verse_hits :: "options \<Rightarrow> string \<Rightarrow> jsval \<Rightarrow> jsval list \<Rightarrow> jsval list" where
  "verse_hits opts searchTerm chapter verses =
     List.map_filter
       (\<lambda>verse. case verse_hit opts searchTerm chapter verse of Inr (Some r) \<Rightarrow> Some r | other \<Rightarrow> None)
       verses"

text \<open>All matches of the memory cache: chapter entries in the order of the cache (the
  order in which the keys were first set), and within a chapter in content order.\<close>

definition all_hits :: "options \<Rightarrow> string \<Rightarrow> (string \<times> jsval) list \<Rightarrow> jsval list" where
  "all_hits opts searchTerm entries =
     concat (map (\<lambda>(cacheKey, chapter).
                    if prefix ''chapter-'' cacheKey
                    then verse_hits opts searchTerm chapter (chapter_verses chapter) else [])
                 entries)"



section \<open>What a read of the storage delivers\<close>

text \<open>The value \<^verbatim>\<open>getCachedData\<close> delivers at time \<open>now\<close> for the item found under a key:
  the \<^verbatim>\<open>data\<close> of an envelope whose \<^verbatim>\<open>expires\<close> is falsy or not yet passed, and a miss
  in every other case.\<close>

fun entry_value :: "int \<Rightarrow> stored option \<Rightarrow> jsval" where
  "entry_value now (Some (Json (JObj ps))) =
     (if truthy (opt_prop (JObj ps) ''expires'') \<and> js_gt now (opt_prop (JObj ps) ''expires'')
      then JNull else opt_prop (JObj ps) ''data'')"
| "entry_value now (Some (Json JNull)) = JNull"
| "entry_value now (Some (Json JUndefined)) = JNull"
| "entry_value now (Some (Json v)) = JUndefined"
| "entry_value now (Some Unparseable) = JNull"
| "entry_value now (Some EmptyText) = JNull"
| "entry_value now None = JNull"

definition stored_value :: "world \<Rightarrow> string \<Rightarrow> jsval" where
  "stored_value w key =
     (if get_raises w (''quran-'' @ key) then JNull
      else entry_value (clock w) (map_of (items w) (''quran-'' @ key)))"

text \<open>The envelope \<^verbatim>\<open>setCachedData\<close> writes at time \<open>cached\<close> for a positive TTL.\<close>

definition envelope :: "jsval \<Rightarrow> int \<Rightarrow> int \<Rightarrow> stored" where
  "envelope d cached ttlMs =
     Json (JObj [(''data'', d), (''expires'', JNum (cached + ttlMs)), (''cached'', JNum cached)])"

section \<open>Sample documents and hosts\<close>

definition sample_chapter1 :: jsval where
  "sample_chapter1 =
     JObj [(''chapter'', JNum 1), (''name'', JStr ''Al-Fatihah''),
           (''content'', JArr [
              JObj [(''verse'', JNum 1), (''arabic'', JStr ''bismillah''),
                    (''translations'', JObj [(''en.sahih'', JStr ''In the name of Allah'')])],
              JObj [(''verse'', JNum 2), (''arabic'', JStr ''alhamdu lillah'')]])]"

definition sample_chapter2 :: jsval where
  "sample_chapter2 =
     JObj [(''chapter'', JNum 2), (''name'', JStr ''Al-Baqarah''),
           (''content'', JArr [
              JObj [(''verse'', JNum 255), (''arabic'', JStr ''allahu la ilaha''),
                    (''translations'', JObj [(''en.sahih'', JStr ''Allah - there is no deity except Him'')])]])]"

definition sample_index :: jsval where
  "sample_index = JObj [(''totalChapters'', JNum 114)]"

definition sample_collection :: jsval where
  "sample_collection = JObj [(''id'', JStr ''bukhari''), (''totalBooks'', JNum 2)]"

definition sample_book1 :: jsval where
  "sample_book1 =
     JObj [(''book'', JNum 1),
           (''content'', JArr [JObj [(''hadithNumber'', JNum 1), (''grade'', JStr ''sahih'')],
                              JObj [(''hadithNumber'', JNum 2)]])]"

definition sample_book2 :: jsval where
  "sample_book2 =
     JObj [(''book'', JNum 2),
           (''content'', JArr [JObj [(''hadithNumber'', JNum 8)],
                              JObj [(''hadithNumber'', JNum 2), (''note'', JStr ''repeated'')]])]"

text \<open>A network without connection, and one where the content is served.\<close>

definition offline :: "string \<Rightarrow> response" where
  "offline url = NetworkError"

definition cdn :: "string \<Rightarrow> response" where
  "cdn url =
     (if url = ''https://cdn.jsdelivr.net/gh/username/islamic-data@main/data/quran/index.json''
        then Http 200 (Json sample_index)
      else if url = ''https://cdn.jsdelivr.net/gh/username/islamic-data@main/data/quran/chapters/001.json''
        then Http 200 (Json sample_chapter1)
      else if url = ''https://cdn.jsdelivr.net/gh/username/islamic-data@main/data/quran/chapters/002.json''
        then Http 200 (Json sample_chapter2)
      else if url = ''https://cdn.jsdelivr.net/gh/yourusername/justdeen-data@main/data/hadith/collections/bukhari/collection.json''
        then Http 200 (Json sample_collection)
      else if url = ''https://cdn.jsdelivr.net/gh/yourusername/justdeen-data@main/data/hadith/collections/bukhari/book-001.json''
        then Http 200 (Json sample_book1)
      else if url = ''https://cdn.jsdelivr.net/gh/yourusername/justdeen-data@main/data/hadith/collections/bukhari/book-002.json''
        then Http 200 (Json sample_book2)
      else Http 404 Unparseable)"

text \<open>A device whose storage holds chapter 1, written at time 100 with a TTL of 400, a
  damaged index and a key of another application.\<close>

definition stale_store :: "(string \<times> stored) list" where
  "stale_store =
     [(''quran-chapter-1'', envelope sample_chapter1 100 400),
      (''quran-quran-index'', Unparseable),
      (''theme'', Json (JStr ''dark''))]"

text \<open>A fresh Dart service on a network: the \<^verbatim>\<open>_cache\<close> is empty (of the record, the
  Dart code uses \<open>cache\<close>, \<open>net\<close> and \<open>trace\<close> only).\<close>

definition IslamicContentService :: "(string \<Rightarrow> response) \<Rightarrow> world" where
  "IslamicContentService nt = QuranService False [] 0 nt"

text \<open>The same device with a backend whose \<^verbatim>\<open>removeItem\<close> throws.\<close>

definition locked_host :: world where
  "locked_host = (QuranService True stale_store 1000 offline)\<lparr>remove_raises := (\<lambda>k. True)\<rparr>"

text \<open>A service that has loaded chapter 1, and one that has loaded chapter 2 and then
  chapter 1.\<close>

definition one_chapter :: world where
  "one_chapter = snd (loadChapter (QuranService True [] 1000 cdn) 1)"

definition two_chapters :: world where
  "two_chapters = snd (loadChapter (snd (loadChapter (QuranService True [] 1000 cdn) 2)) 1)"

section \<open>Properties\<close>

lemma emit_simps [simp]:
  "cache (emit e w) = cache w" "items (emit e w) = items w" "clock (emit e w) = clock w"
  "get_raises (emit e w) = get_raises w" "set_raises (emit e w) = set_raises w"
  "remove_raises (emit e w) = remove_raises w" "keys_raises (emit e w) = keys_raises w"
  "net (emit e w) = net w" "index (emit e w) = index w" "offlineFirst (emit e w) = offlineFirst w"
  "baseUrl (emit e w) = baseUrl w" "trace (emit e w) = trace w @ [e]"
  by (simp_all add: emit_def)

subsection \<open>The persistent cache\<close>

lemma getCachedData_stored_value: "fst (getCachedData w key) = Inr (stored_value w key)"
proof (cases "get_raises w (''quran-'' @ key)")
  case True
  then show ?thesis
    by (simp add: getCachedData_def getCachedData_try_def storage_getItem_def stored_value_def)
next
  case False
  then show ?thesis
    by (cases "(clock w, map_of (items w) (''quran-'' @ key))" rule: entry_value.cases)
       (auto simp: getCachedData_def getCachedData_try_def storage_getItem_def
          storage_removeItem_def stored_value_def Let_def split: option.splits)
qed

lemma getCachedData_frame [simp]:
  "cache (snd (getCachedData w key)) = cache w"
  "net (snd (getCachedData w key)) = net w"
  "clock (snd (getCachedData w key)) = clock w"
  "baseUrl (snd (getCachedData w key)) = baseUrl w"
  "offlineFirst (snd (getCachedData w key)) = offlineFirst w"
  "get_raises (snd (getCachedData w key)) = get_raises w"
  "remove_raises (snd (getCachedData w key)) = remove_raises w"
  "set_raises (snd (getCachedData w key)) = set_raises w"
  by (auto simp: getCachedData_def getCachedData_try_def storage_getItem_def
      storage_removeItem_def Let_def
      split: prod.splits sum.splits option.splits stored.splits if_splits)



lemma stored_value_emit [simp]: "stored_value (emit e w) key = stored_value w key"
  by (simp add: stored_value_def)

text \<open>
  C10: \<^verbatim>\<open>getCachedData\<close> never throws: for every key and every state of the host it
  returns a value, and that value is \<^verbatim>\<open>null\<close> when the backend raises on the read, when
  nothing is stored under the key and when the stored text is not JSON.
\<close>

theorem getCachedData_never_throws:
  "\<exists>v w'. getCachedData w key = (Inr v, w') \<and>
     (get_raises w (''quran-'' @ key) \<or> map_of (items w) (''quran-'' @ key) = None
        \<or> map_of (items w) (''quran-'' @ key) = Some EmptyText
        \<or> map_of (items w) (''quran-'' @ key) = Some Unparseable \<longrightarrow> v = JNull)"
proof -
  obtain r w' where g: "getCachedData w key = (r, w')"
    by (cases "getCachedData w key")
  have r: "r = Inr (stored_value w key)"
    using getCachedData_stored_value[of w key] g by simp
  have "get_raises w (''quran-'' @ key) \<or> map_of (items w) (''quran-'' @ key) = None
        \<or> map_of (items w) (''quran-'' @ key) = Some EmptyText
        \<or> map_of (items w) (''quran-'' @ key) = Some Unparseable \<longrightarrow> stored_value w key = JNull"
    by (auto simp: stored_value_def)
  then show ?thesis using g r by blast
qed

theorem getCachedData_never_throws_witness:
  "map_of (items (QuranService True stale_store 1000 offline)) (''quran-'' @ ''quran-index'') = Some Unparseable
   \<and> fst (getCachedData (QuranService True stale_store 1000 offline) ''quran-index'') = Inr JNull"
  using getCachedData_never_throws[of "QuranService True stale_store 1000 offline" "''quran-index''"]
  by (auto simp: QuranService_def stale_store_def)




subsection \<open>Loading a chapter\<close>

lemma fetch_json_frame [simp]:
  "cache (snd (fetch_json w url)) = cache w"
  "items (snd (fetch_json w url)) = items w"
  "clock (snd (fetch_json w url)) = clock w"
  "get_raises (snd (fetch_json w url)) = get_raises w"
  "set_raises (snd (fetch_json w url)) = set_raises w"
  by (auto simp: fetch_json_def Let_def split: response.splits)


lemma fetch_json_net: "net w' = net w \<Longrightarrow> fst (fetch_json w' url) = fst (fetch_json w url)"
  by (auto simp: fetch_json_def Let_def split: response.splits)




lemma toString_small [simp]:
  "toString 0 = ''0''" "toString 1 = ''1''" "toString 2 = ''2''"
  by (simp_all add: toString_def show_nat.simps digit_char_def)



text \<open>
  C3, for the JavaScript accessor: for every integer outside 1..114 \<^verbatim>\<open>loadChapter\<close> fails
  with \<open>InvalidArgument\<close> and leaves the host as it was; the trace is unchanged, so
  neither the memory cache, nor the storage, nor the network has been touched.
\<close>

theorem loadChapter_out_of_range:
  "n < 1 \<or> n > 114 \<Longrightarrow> loadChapter w n = (Inl InvalidArgument, w)"
  by (simp add: loadChapter_def)

theorem loadChapter_out_of_range_witness:
  "loadChapter (QuranService True stale_store 1000 cdn) 115
     = (Inl InvalidArgument, QuranService True stale_store 1000 cdn)"
  using loadChapter_out_of_range[of 115 "QuranService True stale_store 1000 cdn"] by simp

text \<open>The Dart \<^verbatim>\<open>getChapter\<close> has no range check: for chapter 0 it reads its cache,
  requests \<^verbatim>\<open>000.json\<close> and fails with the status of the answer.\<close>

theorem getChapter_no_range_check_counterexample:
  "fst (getChapter (IslamicContentService cdn) 0) = Inl (FetchFailed (Some 404))
   \<and> trace (snd (getChapter (IslamicContentService cdn) 0))
       = [MemRead ''chapter_0'',
          NetGet ''https://cdn.jsdelivr.net/gh/yourusername/justdeen-data@main/data/quran/chapters/000.json'']"
  by (simp add: getChapter_def cached_get_def IslamicContentService_def QuranService_def
      dart_baseUrl_def padStart_def cdn_def Let_def emit_def numeral_2_eq_2)

subsection \<open>The TTL of the writes\<close>

lemma getCachedData_miss:
  assumes "\<not> truthy (stored_value w key)"
  obtains v w1 where "getCachedData w key = (Inr v, w1)" and "\<not> truthy v"
    and "set_raises w1 = set_raises w" and "clock w1 = clock w" and "net w1 = net w"
    and "baseUrl w1 = baseUrl w" and "cache w1 = cache w"
proof -
  obtain r w1 where g: "getCachedData w key = (r, w1)" by (cases "getCachedData w key")
  have r: "r = Inr (stored_value w key)" using getCachedData_stored_value[of w key] g by simp
  have w1: "w1 = snd (getCachedData w key)" using g by simp
  have "set_raises w1 = set_raises w" "clock w1 = clock w" "net w1 = net w"
    "baseUrl w1 = baseUrl w" "cache w1 = cache w"
    using w1 by simp_all
  then show ?thesis using that[of "stored_value w key" w1] g r assms by simp
qed

lemma setCachedData_expires:
  assumes "\<not> set_raises w (''quran-'' @ key)" and "0 < t"
  shows "\<exists>env. map_of (items (snd (setCachedData w key d t))) (''quran-'' @ key) = Some (Json env)
           \<and> opt_prop env ''expires'' = JNum (clock w + t)"
  using assms
  by (auto simp: setCachedData_def storage_setItem_def Let_def update_conv')

lemma setCachedData_fst [simp]: "fst (setCachedData w key d t) = Inr ()"
  by (auto simp: setCachedData_def split: prod.splits sum.splits)

lemma loadQuranIndex_try_ttl:
  assumes "fst (fetch_json w (baseUrl w @ ''/data/quran/index.json'')) = Inr data"
    and "\<not> set_raises w ''quran-quran-index''"
  shows "\<exists>env. map_of (items (snd (loadQuranIndex_try w))) ''quran-quran-index'' = Some (Json env)
           \<and> opt_prop env ''expires'' = JNum (clock w + 86400000)"
proof -
  obtain w1 where f: "fetch_json w (baseUrl w @ ''/data/quran/index.json'') = (Inr data, w1)"
    using assms(1) by (cases "fetch_json w (baseUrl w @ ''/data/quran/index.json'')") auto
  have w1: "w1 = snd (fetch_json w (baseUrl w @ ''/data/quran/index.json''))" using f by simp
  have s: "\<not> set_raises w1 (''quran-'' @ ''quran-index'')" and c: "clock w1 = clock w"
    using assms(2) w1 by simp_all
  obtain w2 where g: "setCachedData w1 ''quran-index'' data 86400000 = (Inr (), w2)"
    using setCachedData_fst[of w1 "''quran-index''" data 86400000]
    by (cases "setCachedData w1 ''quran-index'' data 86400000") auto
  have "loadQuranIndex_try w = (Inr data, w2)"
    using f g by (simp add: loadQuranIndex_try_def)
  then show ?thesis
    using setCachedData_expires[OF s, of 86400000 data] g c by simp
qed

lemma cache_set_frame [simp]:
  "items (cache_set w k v) = items w" "clock (cache_set w k v) = clock w"
  "set_raises (cache_set w k v) = set_raises w" "get_raises (cache_set w k v) = get_raises w"
  "net (cache_set w k v) = net w" "baseUrl (cache_set w k v) = baseUrl w"
  "cache (cache_set w k v) = AList.update k v (cache w)"
  by (simp_all add: cache_set_def)

lemma loadChapter_try_ttl:
  assumes "fst (fetch_json w (chapter_url w n)) = Inr data"
    and "\<not> set_raises w (''quran-'' @ k)"
  shows "\<exists>env. map_of (items (snd (loadChapter_try w n k))) (''quran-'' @ k) = Some (Json env)
           \<and> opt_prop env ''expires'' = JNum (clock w + 604800000)"
proof -
  obtain w1 where f: "fetch_json w (chapter_url w n) = (Inr data, w1)"
    using assms(1) by (cases "fetch_json w (chapter_url w n)") auto
  have w1: "w1 = snd (fetch_json w (chapter_url w n))" using f by simp
  let ?w1 = "cache_set w1 k data"
  have s: "\<not> set_raises ?w1 (''quran-'' @ k)" and c: "clock ?w1 = clock w"
    using assms(2) w1 by simp_all
  obtain w2 where g: "setCachedData ?w1 k data 604800000 = (Inr (), w2)"
    using setCachedData_fst[of ?w1 k data 604800000]
    by (cases "setCachedData ?w1 k data 604800000") auto
  have "loadChapter_try w n k = (Inr data, w2)"
    using f g by (simp add: loadChapter_try_def)
  then show ?thesis
    using setCachedData_expires[OF s, of 604800000 data] g c by simp
qed

text \<open>
  C2, as the code has it: a write that follows a successful request carries the TTL of
  its accessor: \<^verbatim>\<open>loadQuranIndex\<close> stores the index with \<^verbatim>\<open>expires\<close> 24 hours after the
  write, \<^verbatim>\<open>loadChapter\<close> stores a chapter with \<^verbatim>\<open>expires\<close> 7 days after the write.
\<close>

theorem write_ttl_by_accessor:
  "(fst (fetch_json w (baseUrl w @ ''/data/quran/index.json'')) = Inr data
      \<and> \<not> set_raises w ''quran-quran-index''
      \<and> (offlineFirst w \<longrightarrow> \<not> truthy (stored_value w ''quran-index''))
    \<longrightarrow> (\<exists>env. map_of (items (snd (loadQuranIndex w))) ''quran-quran-index'' = Some (Json env)
           \<and> opt_prop env ''expires'' = JNum (clock w + 24 * 60 * 60 * 1000)))
   \<and> (1 \<le> n \<and> n \<le> 114
      \<and> map_of (cache w) (''chapter-'' @ toString n) = None
      \<and> fst (fetch_json w (chapter_url w n)) = Inr doc
      \<and> \<not> set_raises w (''quran-chapter-'' @ toString n)
      \<and> (offlineFirst w \<longrightarrow> \<not> truthy (stored_value w (''chapter-'' @ toString n)))
    \<longrightarrow> (\<exists>env. map_of (items (snd (loadChapter w n))) (''quran-chapter-'' @ toString n) = Some (Json env)
           \<and> opt_prop env ''expires'' = JNum (clock w + 7 * 24 * 60 * 60 * 1000)))"
proof (intro conjI impI)
  assume a: "fst (fetch_json w (baseUrl w @ ''/data/quran/index.json'')) = Inr data
      \<and> \<not> set_raises w ''quran-quran-index''
      \<and> (offlineFirst w \<longrightarrow> \<not> truthy (stored_value w ''quran-index''))"
  show "\<exists>env. map_of (items (snd (loadQuranIndex w))) ''quran-quran-index'' = Some (Json env)
           \<and> opt_prop env ''expires'' = JNum (clock w + 24 * 60 * 60 * 1000)"
  proof (cases "offlineFirst w")
    case False
    then show ?thesis using a loadQuranIndex_try_ttl[of w data] by (simp add: loadQuranIndex_def)
  next
    case True
    from a True obtain v w1 where g: "getCachedData w ''quran-index'' = (Inr v, w1)" "\<not> truthy v"
      and fr: "set_raises w1 = set_raises w" "clock w1 = clock w" "net w1 = net w" "baseUrl w1 = baseUrl w"
      using getCachedData_miss[of w "''quran-index''"] by metis
    have "fst (fetch_json w1 (baseUrl w1 @ ''/data/quran/index.json'')) = Inr data"
      using a fr fetch_json_net[of w1 w] by simp
    then show ?thesis
      using True g fr a loadQuranIndex_try_ttl[of w1 data] by (simp add: loadQuranIndex_def)
  qed
next
  let ?k = "''chapter-'' @ toString n"
  let ?w0 = "emit (MemRead ?k) w"
  assume a: "1 \<le> n \<and> n \<le> 114
      \<and> map_of (cache w) (''chapter-'' @ toString n) = None
      \<and> fst (fetch_json w (chapter_url w n)) = Inr doc
      \<and> \<not> set_raises w (''quran-chapter-'' @ toString n)
      \<and> (offlineFirst w \<longrightarrow> \<not> truthy (stored_value w (''chapter-'' @ toString n)))"
  have f0: "fst (fetch_json ?w0 (chapter_url ?w0 n)) = Inr doc"
    using a fetch_json_net[of ?w0 w] by (simp add: chapter_url_def)
  show "\<exists>env. map_of (items (snd (loadChapter w n))) (''quran-chapter-'' @ toString n) = Some (Json env)
           \<and> opt_prop env ''expires'' = JNum (clock w + 7 * 24 * 60 * 60 * 1000)"
  proof (cases "offlineFirst w")
    case False
    then show ?thesis using a f0 loadChapter_try_ttl[of ?w0 n doc ?k]
      by (simp add: loadChapter_def Let_def)
  next
    case True
    have "\<not> truthy (stored_value ?w0 ?k)" using a True by simp
    then obtain v w1 where g: "getCachedData ?w0 ?k = (Inr v, w1)" "\<not> truthy v"
      and fr: "set_raises w1 = set_raises ?w0" "clock w1 = clock ?w0" "net w1 = net ?w0" "baseUrl w1 = baseUrl ?w0"
      using getCachedData_miss[of ?w0 ?k] by metis
    have "fst (fetch_json w1 (chapter_url w1 n)) = Inr doc"
      using a fr fetch_json_net[of w1 w] by (simp add: chapter_url_def)
    then show ?thesis
      using True g fr a loadChapter_try_ttl[of w1 n doc ?k]
      by (simp add: loadChapter_def Let_def)
  qed
qed


theorem write_ttl_by_accessor_witness:
  "(\<exists>env. map_of (items (snd (loadQuranIndex (QuranService True [] 1000 cdn)))) ''quran-quran-index''
            = Some (Json env) \<and> opt_prop env ''expires'' = JNum 86401000)
   \<and> (\<exists>env. map_of (items (snd (loadChapter (QuranService True [] 1000 cdn) 1))) ''quran-chapter-1''
            = Some (Json env) \<and> opt_prop env ''expires'' = JNum 604801000)"
  using write_ttl_by_accessor[of "QuranService True [] 1000 cdn" sample_index 1 sample_chapter1]
  by (simp add: QuranService_def fetch_json_def cdn_def chapter_url_def padStart_def
      stored_value_def numeral_2_eq_2)

text \<open>The index is not written with 7 days, nor a chapter with 30 days.\<close>

theorem write_ttl_counterexample:
  "map_of (items (snd (loadQuranIndex (QuranService True [] 1000 cdn)))) ''quran-quran-index''
     = Some (envelope sample_index 1000 (24 * 60 * 60 * 1000))
   \<and> envelope sample_index 1000 (24 * 60 * 60 * 1000)
       \<noteq> envelope sample_index 1000 (7 * 24 * 60 * 60 * 1000)
   \<and> map_of (items (snd (loadChapter (QuranService True [] 1000 cdn) 1))) ''quran-chapter-1''
     = Some (envelope sample_chapter1 1000 (7 * 24 * 60 * 60 * 1000))
   \<and> envelope sample_chapter1 1000 (7 * 24 * 60 * 60 * 1000)
       \<noteq> envelope sample_chapter1 1000 (30 * 24 * 60 * 60 * 1000)"
  by (simp add: loadQuranIndex_def loadQuranIndex_try_def loadChapter_def loadChapter_try_def
      fetch_json_def setCachedData_def storage_setItem_def
      getCachedData_def getCachedData_try_def storage_getItem_def
      chapter_url_def padStart_def cache_set_def numeral_2_eq_2
      QuranService_def cdn_def envelope_def Let_def emit_def sample_index_def sample_chapter1_def)

subsection \<open>Clearing the caches\<close>

lemma remove_keys_fst_cache [simp]: "cache (snd (remove_keys w keys)) = cache w"
  by (induction keys arbitrary: w)
     (auto simp: storage_removeItem_def Let_def split: prod.splits sum.splits)

lemma remove_keys_items:
  assumes "\<forall>k\<in>set keys. prefix ''quran-'' k \<longrightarrow> \<not> remove_raises w k"
  shows "fst (remove_keys w keys) = Inr ()
       \<and> items (snd (remove_keys w keys))
           = filter (\<lambda>p. \<not> (prefix ''quran-'' (fst p) \<and> fst p \<in> set keys)) (items w)"
  using assms
proof (induction keys arbitrary: w)
  case Nil
  then show ?case by simp
next
  case (Cons key keys)
  show ?case
  proof (cases "prefix ''quran-'' key")
    case False
    have "\<forall>k\<in>set keys. prefix ''quran-'' k \<longrightarrow> \<not> remove_raises w k" using Cons.prems by simp
    from Cons.IH[OF this] False show ?thesis
      by (auto intro!: filter_cong)
  next
    case True
    let ?w1 = "(emit (StoreRemove key) w)\<lparr>items := AList.delete key (items w)\<rparr>"
    have r: "storage_removeItem w key = (Inr (), ?w1)"
      using True Cons.prems by (simp add: storage_removeItem_def Let_def)
    have "\<forall>k\<in>set keys. prefix ''quran-'' k \<longrightarrow> \<not> remove_raises ?w1 k" using Cons.prems by simp
    from Cons.IH[OF this] True r show ?thesis
      by (auto simp: AList.delete_eq intro!: filter_cong)
  qed
qed

lemma clearCache_try_cache: "cache (snd (clearCache_try w)) = cache w"
  by (simp add: clearCache_try_def storage_keys_def Let_def)

text \<open>
  C9, as the code has it: \<^verbatim>\<open>clearCache\<close> always completes and always empties the memory
  cache; when the backend raises neither on listing the keys nor on removing a key with
  the prefix \<^verbatim>\<open>quran-\<close>, the storage afterwards holds exactly the items whose key does not
  start with \<^verbatim>\<open>quran-\<close>, unchanged and in their order.
\<close>

theorem clearCache_clears:
  "fst (clearCache w) = Inr () \<and> cache (snd (clearCache w)) = []
   \<and> (\<not> keys_raises w \<and> (\<forall>k\<in>set (map fst (items w)). prefix ''quran-'' k \<longrightarrow> \<not> remove_raises w k)
      \<longrightarrow> items (snd (clearCache w)) = filter (\<lambda>p. \<not> prefix ''quran-'' (fst p)) (items w))"
proof (intro conjI impI)
  show "fst (clearCache w) = Inr ()"
    by (simp add: clearCache_def split: prod.splits sum.splits)
  show "cache (snd (clearCache w)) = []"
  proof -
    let ?w0 = "(emit MemClear w)\<lparr>cache := []\<rparr>"
    obtain r w1 where t: "clearCache_try ?w0 = (r, w1)" by (cases "clearCache_try ?w0")
    have "cache w1 = cache ?w0" using clearCache_try_cache[of ?w0] t by simp
    then show ?thesis using t by (cases r) (simp_all add: clearCache_def)
  qed
next
  let ?w0 = "(emit MemClear w)\<lparr>cache := []\<rparr>"
  let ?w1 = "emit StoreKeys ?w0"
  assume a: "\<not> keys_raises w \<and> (\<forall>k\<in>set (map fst (items w)). prefix ''quran-'' k \<longrightarrow> \<not> remove_raises w k)"
  have k: "storage_keys ?w0 = (Inr (map fst (items w)), ?w1)"
    using a by (simp add: storage_keys_def Let_def)
  have "\<forall>k\<in>set (map fst (items w)). prefix ''quran-'' k \<longrightarrow> \<not> remove_raises ?w1 k"
    using a by simp
  from remove_keys_items[OF this] k
  show "items (snd (clearCache w)) = filter (\<lambda>p. \<not> prefix ''quran-'' (fst p)) (items w)"
    by (auto simp: clearCache_def clearCache_try_def split: prod.splits sum.splits intro!: filter_cong)
qed

theorem clearCache_clears_witness:
  "cache (snd (clearCache one_chapter)) = []
   \<and> items (snd (clearCache (QuranService True stale_store 1000 offline))) = [(''theme'', Json (JStr ''dark''))]"
  using clearCache_clears[of one_chapter] clearCache_clears[of "QuranService True stale_store 1000 offline"]
  by (simp add: QuranService_def stale_store_def)

text \<open>When \<^verbatim>\<open>removeItem\<close> throws, \<^verbatim>\<open>clearCache\<close> logs the error and completes with
  the \<^verbatim>\<open>quran-\<close> items still in the storage.\<close>

theorem clearCache_backend_error_counterexample:
  "fst (clearCache locked_host) = Inr ()
   \<and> map_of (items (snd (clearCache locked_host))) ''quran-chapter-1''
       = Some (envelope sample_chapter1 100 400)"
  by (simp add: clearCache_def clearCache_try_def storage_keys_def storage_removeItem_def
      locked_host_def QuranService_def stale_store_def Let_def emit_def)

subsection \<open>Searching\<close>

lemma verse_hits_Nil [simp]: "verse_hits opts t ch [] = []"
  by (simp add: verse_hits_def map_filter_simps)

lemma verse_hits_Cons:
  "verse_hits opts t ch (v # vs) =
     (case verse_hit opts t ch v of Inr (Some r) \<Rightarrow> r # verse_hits opts t ch vs
      | other \<Rightarrow> verse_hits opts t ch vs)"
  by (simp add: verse_hits_def map_filter_simps split: sum.splits option.splits)

lemma scan_verses_spec:
  assumes "scan_verses opts t ch vs acc = Inr rs"
    and "acc = [] \<or> int (length acc) < limit opts"
  shows "(\<exists>ys. rs = acc @ ys \<and> prefix ys (verse_hits opts t ch vs)
            \<and> (int (length rs) < limit opts \<longrightarrow> ys = verse_hits opts t ch vs))
         \<and> (length rs \<le> 1 \<or> int (length rs) \<le> limit opts)"
  using assms
proof (induction vs arbitrary: acc)
  case Nil
  then show ?case by auto
next
  case (Cons v vs)
  show ?case
  proof (cases "verse_hit opts t ch v")
    case (Inl e)
    then show ?thesis using Cons.prems by simp
  next
    case (Inr h)
    show ?thesis
    proof (cases h)
      case None
      then have "scan_verses opts t ch vs acc = Inr rs" using Cons.prems Inr by simp
      from Cons.IH[OF this Cons.prems(2)] show ?thesis
        using Inr None by (simp add: verse_hits_Cons)
    next
      case (Some r)
      show ?thesis
      proof (cases "int (length (acc @ [r])) \<ge> limit opts")
        case True
        then have rs: "rs = acc @ [r]" using Cons.prems Inr Some by simp
        then show ?thesis using True Cons.prems(2) Inr Some
          by (auto simp: verse_hits_Cons)
      next
        case False
        then have s: "scan_verses opts t ch vs (acc @ [r]) = Inr rs"
          using Cons.prems Inr Some by simp
        have "acc @ [r] = [] \<or> int (length (acc @ [r])) < limit opts" using False by simp
        from Cons.IH[OF s this] show ?thesis
          using Inr Some by (auto simp: verse_hits_Cons)
      qed
    qed
  qed
qed

lemma all_hits_Nil [simp]: "all_hits opts t [] = []"
  by (simp add: all_hits_def)

lemma all_hits_Cons:
  "all_hits opts t ((k, ch) # rest) =
     (if prefix ''chapter-'' k then verse_hits opts t ch (chapter_verses ch) else [])
     @ all_hits opts t rest"
  by (simp add: all_hits_def)

lemma scan_cache_spec:
  assumes "scan_cache opts t entries acc = Inr rs"
    and "acc = [] \<or> int (length acc) < limit opts"
  shows "(\<exists>ys. rs = acc @ ys \<and> prefix ys (all_hits opts t entries)
            \<and> (int (length rs) < limit opts \<longrightarrow> ys = all_hits opts t entries))
         \<and> (length rs \<le> 1 \<or> int (length rs) \<le> limit opts)"
  using assms
proof (induction entries arbitrary: acc)
  case Nil
  then show ?case by auto
next
  case (Cons entry entries)
  obtain k ch where e: "entry = (k, ch)" by (cases entry)
  show ?case
  proof (cases "prefix ''chapter-'' k")
    case False
    then have "scan_cache opts t entries acc = Inr rs" using Cons.prems e by simp
    from Cons.IH[OF this Cons.prems(2)] show ?thesis
      using False e by (simp add: all_hits_Cons)
  next
    case True
    from Cons.prems(1) True e obtain content verses mid where
      c: "get_prop ch ''content'' = Inr content" and i: "iterate content = Inr verses"
      and m: "scan_verses opts t ch verses acc = Inr mid"
      by (auto split: sum.splits)
    have cv: "chapter_verses ch = verses" using c i by (simp add: chapter_verses_def)
    from scan_verses_spec[OF m Cons.prems(2)] obtain ys where
      ys: "mid = acc @ ys" "prefix ys (verse_hits opts t ch verses)"
        "int (length mid) < limit opts \<longrightarrow> ys = verse_hits opts t ch verses"
      and b: "length mid \<le> 1 \<or> int (length mid) \<le> limit opts"
      by blast
    show ?thesis
    proof (cases "int (length mid) \<ge> limit opts")
      case ge: True
      then have "rs = mid" using Cons.prems(1) True e c i m by simp
      then show ?thesis using ys b ge True e cv
        by (auto simp: all_hits_Cons intro: prefix_order.trans)
    next
      case lt: False
      then have s: "scan_cache opts t entries mid = Inr rs"
        using Cons.prems(1) True e c i m by simp
      have "mid = [] \<or> int (length mid) < limit opts" using lt by simp
      from Cons.IH[OF s this] obtain zs where
        zs: "rs = mid @ zs" "prefix zs (all_hits opts t entries)"
          "int (length rs) < limit opts \<longrightarrow> zs = all_hits opts t entries"
        and b2: "length rs \<le> 1 \<or> int (length rs) \<le> limit opts"
        by blast
      have full: "ys = verse_hits opts t ch verses" using ys(3) lt by simp
      have "rs = acc @ (ys @ zs)" using zs(1) ys(1) by simp
      moreover have "prefix (ys @ zs) (all_hits opts t (entry # entries))"
        using full zs(2) True e cv by (simp add: all_hits_Cons)
      moreover have "int (length rs) < limit opts \<longrightarrow> ys @ zs = all_hits opts t (entry # entries)"
        using full zs(3) True e cv by (simp add: all_hits_Cons)
      ultimately show ?thesis using b2 by blast
    qed
  qed
qed


lemma getCachedData_NetGet [simp]:
  "NetGet u \<in> set (trace (snd (getCachedData w key))) \<longleftrightarrow> NetGet u \<in> set (trace w)"
  by (auto simp: getCachedData_def getCachedData_try_def storage_getItem_def
      storage_removeItem_def Let_def
      split: prod.splits sum.splits option.splits stored.splits if_splits)

lemma setCachedData_NetGet [simp]:
  "NetGet u \<in> set (trace (snd (setCachedData w key d t))) \<longleftrightarrow> NetGet u \<in> set (trace w)"
  by (auto simp: setCachedData_def storage_setItem_def Let_def split: prod.splits sum.splits if_splits)

lemma setCachedData_frame [simp]:
  "cache (snd (setCachedData w key d t)) = cache w"
  "baseUrl (snd (setCachedData w key d t)) = baseUrl w"
  by (auto simp: setCachedData_def storage_setItem_def Let_def split: prod.splits sum.splits if_splits)

lemma fetch_json_NetGet [simp]:
  "NetGet u \<in> set (trace (snd (fetch_json w url))) \<longleftrightarrow> NetGet u \<in> set (trace w) \<or> u = url"
  by (auto simp: fetch_json_def Let_def split: response.splits)

lemma fetch_json_baseUrl [simp]: "baseUrl (snd (fetch_json w url)) = baseUrl w"
  by (auto simp: fetch_json_def Let_def split: response.splits)

lemma loadQuranIndex_catch_frame:
  "cache (snd (loadQuranIndex_catch w e)) = cache w
   \<and> (NetGet u \<in> set (trace (snd (loadQuranIndex_catch w e))) \<longleftrightarrow> NetGet u \<in> set (trace w))"
proof -
  let ?w0 = "emit (Console ''error'') w"
  obtain r w1 where g: "getCachedData ?w0 ''quran-index'' = (r, w1)"
    by (cases "getCachedData ?w0 ''quran-index''")
  have w1: "w1 = snd (getCachedData ?w0 ''quran-index'')" using g by simp
  have "cache w1 = cache w" and "NetGet u \<in> set (trace w1) \<longleftrightarrow> NetGet u \<in> set (trace w)"
    using w1 by simp_all
  then show ?thesis using g by (cases r) (simp_all add: loadQuranIndex_catch_def)
qed

lemma loadQuranIndex_try_frame:
  "cache (snd (loadQuranIndex_try w)) = cache w
   \<and> (NetGet u \<in> set (trace (snd (loadQuranIndex_try w)))
        \<longrightarrow> NetGet u \<in> set (trace w) \<or> u = baseUrl w @ ''/data/quran/index.json'')"
proof -
  let ?url = "baseUrl w @ ''/data/quran/index.json''"
  obtain r w1 where f: "fetch_json w ?url = (r, w1)" by (cases "fetch_json w ?url")
  have w1: "w1 = snd (fetch_json w ?url)" using f by simp
  have c1: "cache w1 = cache w"
    and n1: "NetGet u \<in> set (trace w1) \<longleftrightarrow> NetGet u \<in> set (trace w) \<or> u = ?url"
    using w1 by simp_all
  show ?thesis
  proof (cases r)
    case (Inl e)
    then show ?thesis
      using f c1 n1 loadQuranIndex_catch_frame[of w1 e u] by (simp add: loadQuranIndex_try_def)
  next
    case (Inr data)
    obtain r2 w2 where s: "setCachedData w1 ''quran-index'' data (24 * 60 * 60 * 1000) = (r2, w2)"
      by (cases "setCachedData w1 ''quran-index'' data (24 * 60 * 60 * 1000)")
    have w2: "w2 = snd (setCachedData w1 ''quran-index'' data (24 * 60 * 60 * 1000))" using s by simp
    have c2: "cache w2 = cache w"
      and n2: "NetGet u \<in> set (trace w2) \<longleftrightarrow> NetGet u \<in> set (trace w) \<or> u = ?url"
      using w2 c1 n1 by simp_all
    show ?thesis
      using f Inr s c2 n2 loadQuranIndex_catch_frame[of w2 _ u]
      by (cases r2) (simp_all add: loadQuranIndex_try_def)
  qed
qed

lemma loadQuranIndex_frame:
  "cache (snd (loadQuranIndex w)) = cache w
   \<and> (NetGet u \<in> set (trace (snd (loadQuranIndex w)))
        \<longrightarrow> NetGet u \<in> set (trace w) \<or> u = baseUrl w @ ''/data/quran/index.json'')"
proof (cases "offlineFirst w")
  case False
  then show ?thesis using loadQuranIndex_try_frame[of w u] by (simp add: loadQuranIndex_def)
next
  case True
  obtain r w1 where g: "getCachedData w ''quran-index'' = (r, w1)"
    by (cases "getCachedData w ''quran-index''")
  have w1: "w1 = snd (getCachedData w ''quran-index'')" using g by simp
  have f1: "cache w1 = cache w" "baseUrl w1 = baseUrl w"
    "NetGet u \<in> set (trace w1) \<longleftrightarrow> NetGet u \<in> set (trace w)"
    using w1 by simp_all
  show ?thesis
    using True g f1 loadQuranIndex_try_frame[of w1 u]
    by (cases r) (auto simp: loadQuranIndex_def)
qed

lemma searchVerses_scan:
  assumes "fst (searchVerses w q opts) = Inr rs"
  shows "scan_cache opts (toLowerCase q) (cache w) [] = Inr rs"
proof (cases "truthy (index w)")
  case True
  then show ?thesis using assms by (simp add: searchVerses_def)
next
  case False
  obtain r w1 where l: "loadQuranIndex w = (r, w1)" by (cases "loadQuranIndex w")
  have "cache w1 = cache w" using loadQuranIndex_frame[of w] l by simp
  then show ?thesis using assms False l by (cases r) (simp_all add: searchVerses_def)
qed


lemma search_two_chapters:
  "fst (searchVerses two_chapters ''Allah'' default_options)
     = Inr [JObj [(''chapter'', JNum 2), (''verse'', JNum 255), (''arabic'', JStr ''allahu la ilaha''),
                  (''translation'', JStr ''Allah - there is no deity except Him''),
                  (''transliteration'', JUndefined)],
            JObj [(''chapter'', JNum 1), (''verse'', JNum 1), (''arabic'', JStr ''bismillah''),
                  (''translation'', JStr ''In the name of Allah''),
                  (''transliteration'', JUndefined)]]"
  by code_simp




text \<open>
  C6, as the code has it: a search that returns gives at most \<open>limit\<close> matches (50 by
  default; one match when \<open>limit\<close> is below 1), and for \<open>limit \<ge> 1\<close> exactly the first
  \<open>limit\<close> of all matches taken in the order of the memory cache (the order in which the
  chapters were first loaded) and, within a chapter, in the order of its content.
\<close>

theorem searchVerses_cap_and_order:
  assumes "fst (searchVerses w q opts) = Inr rs"
  shows "length rs \<le> max 1 (nat (limit opts))
       \<and> prefix rs (all_hits opts (toLowerCase q) (cache w))
       \<and> (1 \<le> limit opts \<longrightarrow> rs = take (nat (limit opts)) (all_hits opts (toLowerCase q) (cache w)))"
proof -
  let ?all = "all_hits opts (toLowerCase q) (cache w)"
  have "scan_cache opts (toLowerCase q) (cache w) [] = Inr rs"
    using assms by (rule searchVerses_scan)
  from scan_cache_spec[OF this] have p: "prefix rs ?all"
    and f: "int (length rs) < limit opts \<longrightarrow> rs = ?all"
    and b: "length rs \<le> 1 \<or> int (length rs) \<le> limit opts"
    by auto
  have "length rs \<le> max 1 (nat (limit opts))" using b by auto
  moreover have "rs = take (nat (limit opts)) ?all" if l: "1 \<le> limit opts"
  proof (cases "int (length rs) < limit opts")
    case True
    then show ?thesis using f by simp
  next
    case False
    then have "length rs = nat (limit opts)" using b l by auto
    moreover obtain zs where "?all = rs @ zs" using p by (auto simp: prefix_def)
    ultimately show ?thesis by simp
  qed
  ultimately show ?thesis using p by blast
qed

theorem searchVerses_cap_and_order_witness:
  "prefix [JObj [(''chapter'', JNum 2), (''verse'', JNum 255), (''arabic'', JStr ''allahu la ilaha''),
                  (''translation'', JStr ''Allah - there is no deity except Him''),
                  (''transliteration'', JUndefined)],
            JObj [(''chapter'', JNum 1), (''verse'', JNum 1), (''arabic'', JStr ''bismillah''),
                  (''translation'', JStr ''In the name of Allah''),
                  (''transliteration'', JUndefined)]]
     (all_hits default_options (toLowerCase ''Allah'') (cache two_chapters))"
  using searchVerses_cap_and_order[OF search_two_chapters] by simp

text \<open>After chapter 2 and then chapter 1 have been loaded, the match of chapter 2 comes
  before the match of chapter 1.\<close>

theorem cache_order_counterexample:
  "cache two_chapters = [(''chapter-2'', sample_chapter2), (''chapter-1'', sample_chapter1)]
   \<and> fst (searchVerses two_chapters ''Allah'' default_options)
     = Inr [result_entry sample_chapter2
              (JObj [(''verse'', JNum 255), (''arabic'', JStr ''allahu la ilaha''),
                     (''translations'', JObj [(''en.sahih'', JStr ''Allah - there is no deity except Him'')])])
              (JStr ''Allah - there is no deity except Him''),
            result_entry sample_chapter1
              (JObj [(''verse'', JNum 1), (''arabic'', JStr ''bismillah''),
                     (''translations'', JObj [(''en.sahih'', JStr ''In the name of Allah'')])])
              (JStr ''In the name of Allah'')]
   \<and> opt_prop sample_chapter2 ''chapter'' = JNum 2 \<and> opt_prop sample_chapter1 ''chapter'' = JNum 1"
  by code_simp

subsection \<open>Keys are distinct for distinct numbers\<close>








subsection \<open>Looking a hadith up\<close>

lemma as_map_snd [simp]: "snd (as_map v w) = w"
  by (cases v) simp_all





















subsection \<open>The Dart search\<close>

text \<open>The Dart search differs on both counts: on a cache miss it requests chapter 1, and a
  verse without translations is searched by its Arabic text.\<close>

lemma dart_searchVerses_requests_chapter:
  "NetGet (dart_baseUrl @ ''data/quran/chapters/001.json'')
     \<in> set (trace (snd (dart_searchVerses (IslamicContentService nt) q lang)))"
proof -
  let ?w = "IslamicContentService nt"
  let ?u = "dart_baseUrl @ ''data/quran/chapters/001.json''"
  have u: "getChapter ?w 1 = cached_get ?w ''chapter_1'' ?u"
    by (simp add: getChapter_def padStart_def numeral_2_eq_2)
  have "NetGet ?u \<in> set (trace (snd (cached_get ?w ''chapter_1'' ?u)))"
    by (auto simp: cached_get_def IslamicContentService_def QuranService_def Let_def cache_set_def
        split: response.splits sum.splits)
  then have "NetGet ?u \<in> set (trace (snd (getChapter ?w 1)))" using u by simp
  then show ?thesis
    by (cases "getChapter ?w 1")
       (auto simp: dart_searchVerses_def split: sum.splits jsval.splits)
qed

lemma dart_text_arabic_fallback:
  "map_of ps ''translations'' = None \<Longrightarrow> dart_text (JObj ps) lang = dart_index (JObj ps) ''arabic''"
  by (simp add: dart_text_def)

end
